theory Spec2Isabelle
  imports Main
begin

section \<open>Blocks and the injected capabilities\<close>

text \<open>
  The ledger of \<^verbatim>\<open>src/blockchain.js\<close> stores objects of the class \<^verbatim>\<open>Block\<close>
  and calls three libraries: the digest \<^verbatim>\<open>SHA256\<close>, the serialiser
  \<^verbatim>\<open>JSON.stringify\<close> and the signature check \<^verbatim>\<open>bitcoinMessage.verify\<close>.
  A block is a record of the five fields the ledger reads and writes; \<^verbatim>\<open>null\<close> is
  \<open>None\<close>. The libraries, and the two methods of a block that the ledger calls,
  are fields of a record \<open>env\<close> that every operation takes, so that each theorem
  holds for every digest, serialiser, verifier and block class.
  JavaScript numbers are modelled as \<open>int\<close>: heights and clock readings stay
  far below \<open>2 ^ 53\<close>, where the two agree, and a message time beyond that bound,
  which the host rounds, lies on the same side of every clock reading as its
  rounded value.
\<close>

text \<open>
  A string of the host language is the list of its UTF-16 code units, each a
  natural number. \<open>cu c\<close> is the code unit of an ASCII character and \<open>js s\<close> the
  string of an ASCII literal of the source.
\<close>

type_synonym jsstring = "nat list"

definition cu :: "char \<Rightarrow> nat" where
  "cu c = of_char c"

definition js :: "string \<Rightarrow> jsstring" where
  "js s = map cu s"

datatype bdata =
  GenesisData jsstring
| StarData jsstring jsstring jsstring jsstring

record block =
  hash :: "jsstring option"
  height :: int
  body :: jsstring
  time :: jsstring
  previousBlockHash :: "jsstring option"

text \<open>
  \<open>verify env message address signature\<close> is \<open>Inr b\<close> when the library returns the
  boolean \<open>b\<close> and \<open>Inl msg\<close> when it throws an error whose message is \<open>msg\<close>.
  \<open>encode\<close> is the encoding of a payload by the constructor of a block.
  The file \<^verbatim>\<open>block.js\<close> is not among the sources, so the two methods it gives
  a block are parameters: \<open>validate env b\<close> tells whether the promise of
  \<^verbatim>\<open>b.validate()\<close> is fulfilled (\<open>True\<close>) or rejected (\<open>False\<close>), and
  \<open>getBData env b\<close> is \<open>Some body\<close> when the promise of \<^verbatim>\<open>b.getBData()\<close> is
  fulfilled with the decoded payload \<open>body\<close>, \<open>None\<close> when it is rejected.
\<close>

record env =
  SHA256 :: "jsstring \<Rightarrow> jsstring"
  JSON_stringify :: "block \<Rightarrow> jsstring"
  verify :: "jsstring \<Rightarrow> jsstring \<Rightarrow> jsstring \<Rightarrow> jsstring + bool"
  encode :: "bdata \<Rightarrow> jsstring"
  validate :: "block \<Rightarrow> bool"
  getBData :: "block \<Rightarrow> bdata option"

text \<open>
  Modelled from the spec: the class \<^verbatim>\<open>Block\<close> of \<^verbatim>\<open>block.js\<close>, which is not
  among the sources. A new block holds the encoded payload, height 0, and the
  "none" value for both hashes; its time is overwritten at append time.
\<close>

definition Block :: "env \<Rightarrow> bdata \<Rightarrow> block" where
  "Block env d =
     \<lparr>hash = None, height = 0, body = encode env d, time = (js ''0''), previousBlockHash = None\<rparr>"

text \<open>
  Modelled from the spec: the self-validation of a block. It recomputes the
  digest over the content of the block, which is the block with its stored hash
  taken out, and compares it with the stored hash.
\<close>

definition content :: "block \<Rightarrow> block" where
  "content b = b\<lparr>hash := None\<rparr>"

definition selfValidate :: "env \<Rightarrow> block \<Rightarrow> bool" where
  "selfValidate env b = (hash b = Some (SHA256 env (JSON_stringify env (content b))))"

section \<open>Strings and numbers of the host language\<close>

text \<open>\<^verbatim>\<open>xs[i]\<close>: \<open>None\<close> is \<^verbatim>\<open>undefined\<close>.\<close>

definition js_index :: "'a list \<Rightarrow> int \<Rightarrow> 'a option" where
  "js_index xs i = (if 0 \<le> i \<and> i < int (length xs) then Some (xs ! nat i) else None)"

text \<open>\<^verbatim>\<open>s.split(sep)\<close> for a separator of one code unit.\<close>

fun split :: "nat \<Rightarrow> jsstring \<Rightarrow> jsstring list" where
  "split sep [] = [[]]"
| "split sep (c # cs) =
     (if c = sep then [] # split sep cs
      else (case split sep cs of [] \<Rightarrow> [[c]] | x # xs \<Rightarrow> (c # x) # xs))"

text \<open>\<^verbatim>\<open>n.toString()\<close> for a non-negative integer: its decimal digits.\<close>

definition digit_char :: "nat \<Rightarrow> nat" where
  "digit_char d = cu CHR ''0'' + d"

fun toString :: "nat \<Rightarrow> jsstring" where
  "toString n = (if n < 10 then [digit_char n] else toString (n div 10) @ [digit_char (n mod 10)])"

declare toString.simps [simp del]

text \<open>\<^verbatim>\<open>s.slice(0, -3)\<close>: the string without its last three code units.\<close>

definition slice_0_m3 :: "jsstring \<Rightarrow> jsstring" where
  "slice_0_m3 s = take (length s - 3) s"

text \<open>
  \<^verbatim>\<open>parseInt(x)\<close> with no radix: \<^verbatim>\<open>undefined\<close> is first turned into the string
  \<^verbatim>\<open>"undefined"\<close>; leading white space and line terminators are skipped, one sign
  is read, a prefix \<^verbatim>\<open>0x\<close> selects base 16, and the longest run of digits is
  the value. With no digit the result is \<^verbatim>\<open>NaN\<close>, here \<open>None\<close>.
  The code units skipped are those of the language standard: tab, line feed,
  vertical tab, form feed, carriage return, space, no-break space, the space
  separators U+1680, U+2000 to U+200A, U+202F, U+205F and U+3000, the line and
  paragraph separators U+2028 and U+2029, and the byte order mark U+FEFF.
\<close>

definition is_space :: "nat \<Rightarrow> bool" where
  "is_space c =
     (c \<in> set [0x0009, 0x000A, 0x000B, 0x000C, 0x000D, 0x0020, 0x00A0, 0x1680,
               0x2000, 0x2001, 0x2002, 0x2003, 0x2004, 0x2005, 0x2006, 0x2007,
               0x2008, 0x2009, 0x200A, 0x2028, 0x2029, 0x202F, 0x205F, 0x3000,
               0xFEFF])"

text \<open>The value of a code unit as a digit: \<open>0\<close> to \<open>9\<close>, then the letters in either case.\<close>

definition digit_val :: "nat \<Rightarrow> nat \<Rightarrow> nat option" where
  "digit_val radix c =
     (let v = (if cu CHR ''0'' \<le> c \<and> c \<le> cu CHR ''9'' then Some (c - cu CHR ''0'')
               else if cu CHR ''a'' \<le> c \<and> c \<le> cu CHR ''z'' then Some (c - cu CHR ''a'' + 10)
               else if cu CHR ''A'' \<le> c \<and> c \<le> cu CHR ''Z'' then Some (c - cu CHR ''A'' + 10)
               else None)
      in case v of
           Some d \<Rightarrow> if d < radix then Some d else None
         | None \<Rightarrow> None)"

definition digits_value :: "nat \<Rightarrow> jsstring \<Rightarrow> nat" where
  "digits_value radix ds = foldl (\<lambda>acc c. acc * radix + the (digit_val radix c)) 0 ds"

definition parse_digits :: "nat \<Rightarrow> jsstring \<Rightarrow> nat option" where
  "parse_digits radix s =
     (let ds = takeWhile (\<lambda>c. digit_val radix c \<noteq> None) s
      in if ds = [] then None else Some (digits_value radix ds))"

definition parse_unsigned :: "jsstring \<Rightarrow> nat option" where
  "parse_unsigned s =
     (if take 2 s = js ''0x'' \<or> take 2 s = js ''0X'' then parse_digits 16 (drop 2 s)
      else parse_digits 10 s)"

definition parseInt :: "jsstring option \<Rightarrow> int option" where
  "parseInt x =
     (let s = dropWhile is_space (case x of None \<Rightarrow> js ''undefined'' | Some s \<Rightarrow> s)
      in case s of
           c # r \<Rightarrow>
             if c = cu CHR ''-'' then map_option (\<lambda>n. - int n) (parse_unsigned r)
             else if c = cu CHR ''+'' then map_option int (parse_unsigned r)
             else map_option int (parse_unsigned s)
         | [] \<Rightarrow> None)"

text \<open>Subtraction and \<^verbatim>\<open><\<close> on numbers that may be \<^verbatim>\<open>NaN\<close>.\<close>

definition js_minus :: "int option \<Rightarrow> int option \<Rightarrow> int option" where
  "js_minus x y = (case (x, y) of (Some a, Some b) \<Rightarrow> Some (a - b) | _ \<Rightarrow> None)"

definition js_less :: "int option \<Rightarrow> int \<Rightarrow> bool" where
  "js_less x k = (case x of Some a \<Rightarrow> a < k | None \<Rightarrow> False)"

text \<open>
  \<^verbatim>\<open>new Date().getTime().toString().slice(0,-3)\<close> at a clock reading of \<open>now\<close>
  milliseconds since the epoch.
\<close>

definition seconds_string :: "nat \<Rightarrow> jsstring" where
  "seconds_string now = slice_0_m3 (toString now)"

section \<open>The ledger\<close>

record blockchain =
  chain :: "block list"
  height :: int

text \<open>
  What a promise of the ledger settles with: \<open>Inr\<close> a value it resolves with,
  \<open>Inl\<close> the reason it rejects with. \<open>ExpiredChallenge\<close> is the rejection
  \<^verbatim>\<open>"Validation older than 5 minutes"\<close>, \<open>InvalidSignature\<close> is
  \<^verbatim>\<open>"Signature not verified"\<close>, \<open>VerificationError msg\<close> is the message of an
  error thrown by the verifier, and \<open>TypeError\<close> is the error of reading a property
  of \<^verbatim>\<open>undefined\<close>, \<open>DecodeError\<close> the reason of a rejected
  \<^verbatim>\<open>getBData()\<close>. \<open>MalformedMessage\<close> is a rejection the specification names;
  no statement of the source produces it.
\<close>

datatype rejection =
  ExpiredChallenge
| InvalidSignature
| VerificationError jsstring
| TypeError
| DecodeError
| MalformedMessage

text \<open>
  Every operation is modelled as one call run to completion, with no other call
  of the ledger interleaved: it takes the ledger and returns what its promise
  settles with, together with the ledger afterwards. The constructor is
  modelled together with the append of the genesis block that it starts.
\<close>

definition getChainHeight :: "blockchain \<Rightarrow> int \<times> blockchain" where
  "getChainHeight bc = (blockchain.height bc, bc)"

text \<open>
  The callback of lines 69 to 86, which receives the height that
  \<^verbatim>\<open>getChainHeight\<close> resolved with; \<open>now\<close> is the clock reading of line 77.
  Reading \<^verbatim>\<open>self.chain[chainHeight].hash\<close> of a missing element throws, which
  rejects the promise before anything is stored.
\<close>

definition addBlock_then ::
  "env \<Rightarrow> nat \<Rightarrow> int \<Rightarrow> blockchain \<Rightarrow> block \<Rightarrow> (rejection + block) \<times> blockchain" where
  "addBlock_then env now chainHeight bc b =
     (let b1 = b\<lparr>block.height := chainHeight + 1\<rparr>;
          linked =
            (if chainHeight > -1 then
               (case js_index (chain bc) chainHeight of
                  None \<Rightarrow> None
                | Some p \<Rightarrow> Some (b1\<lparr>previousBlockHash := hash p\<rparr>))
             else Some b1)
      in case linked of
           None \<Rightarrow> (Inl TypeError, bc)
         | Some b2 \<Rightarrow>
             (let b3 = b2\<lparr>time := seconds_string now\<rparr>;
                  b4 = b3\<lparr>hash := Some (SHA256 env (JSON_stringify env b3))\<rparr>
              in (Inr b4,
                  bc\<lparr>chain := chain bc @ [b4], height := blockchain.height bc + 1\<rparr>)))"

text \<open>
  \<^verbatim>\<open>_addBlock(block)\<close>: the height is read and the callback runs on the same
  ledger, no other call of the ledger coming in between.
\<close>

definition addBlock :: "env \<Rightarrow> nat \<Rightarrow> blockchain \<Rightarrow> block \<Rightarrow> (rejection + block) \<times> blockchain" where
  "addBlock env now bc b = addBlock_then env now (fst (getChainHeight bc)) bc b"

text \<open>\<^verbatim>\<open>initializeChain()\<close> and the constructor, which runs it on the empty ledger.\<close>

definition initializeChain :: "env \<Rightarrow> nat \<Rightarrow> blockchain \<Rightarrow> blockchain" where
  "initializeChain env now bc =
     (if blockchain.height bc = -1
      then snd (addBlock env now bc (Block env (GenesisData (js ''Genesis Block''))))
      else bc)"

definition Blockchain_new :: "env \<Rightarrow> nat \<Rightarrow> blockchain" where
  "Blockchain_new env now = initializeChain env now \<lparr>chain = [], height = -1\<rparr>"

text \<open>
  \<^verbatim>\<open>submitStar(address, message, signature, star)\<close>; \<open>now\<close> is the clock reading of
  line 131 and \<open>now'\<close> the later one of \<^verbatim>\<open>_addBlock\<close>. An error thrown by the
  verifier is caught and rejects with its message, before either check is made.
\<close>

definition messageTime :: "jsstring \<Rightarrow> int option" where
  "messageTime message = parseInt (js_index (split (cu CHR '':'') message) 1)"

definition currentTime :: "nat \<Rightarrow> int option" where
  "currentTime now = parseInt (Some (seconds_string now))"

definition submitStar ::
  "env \<Rightarrow> nat \<Rightarrow> nat \<Rightarrow> blockchain \<Rightarrow> jsstring \<Rightarrow> jsstring \<Rightarrow> jsstring \<Rightarrow> jsstring
     \<Rightarrow> (rejection + block) \<times> blockchain" where
  "submitStar env now now' bc address message signature star =
     (case verify env message address signature of
        Inl msg \<Rightarrow> (Inl (VerificationError msg), bc)
      | Inr verified \<Rightarrow>
          if js_less (js_minus (currentTime now) (messageTime message)) (60 * 5) then
            if verified then
              addBlock env now' bc (Block env (StarData address message signature star))
            else (Inl InvalidSignature, bc)
          else (Inl ExpiredChallenge, bc))"

text \<open>
  The same call in the two parts that the scheduler separates. The first part
  runs up to the call of \<^verbatim>\<open>_addBlock\<close>, whose line 69 reads the height of the
  ledger as it is then; it ends with a rejection, or with the height read and
  the block to append. The second part is the callback of \<^verbatim>\<open>_addBlock\<close>, which
  runs later, on the ledger as it is by then.
\<close>

definition submitStar_read ::
  "env \<Rightarrow> nat \<Rightarrow> blockchain \<Rightarrow> jsstring \<Rightarrow> jsstring \<Rightarrow> jsstring \<Rightarrow> jsstring
     \<Rightarrow> rejection + int \<times> block" where
  "submitStar_read env now bc address message signature star =
     (case verify env message address signature of
        Inl msg \<Rightarrow> Inl (VerificationError msg)
      | Inr verified \<Rightarrow>
          if js_less (js_minus (currentTime now) (messageTime message)) (60 * 5) then
            if verified then
              Inr (fst (getChainHeight bc), Block env (StarData address message signature star))
            else Inl InvalidSignature
          else Inl ExpiredChallenge)"

definition submitStar_callback ::
  "env \<Rightarrow> nat \<Rightarrow> rejection + int \<times> block \<Rightarrow> blockchain
     \<Rightarrow> (rejection + block) \<times> blockchain" where
  "submitStar_callback env now' q bc =
     (case q of
        Inl e \<Rightarrow> (Inl e, bc)
      | Inr (chainHeight, b) \<Rightarrow> addBlock_then env now' chainHeight bc b)"

text \<open>
  Two calls made one right after the other, before the caller yields: the first
  part of each call runs before the callback of either. A call is given by its
  two clock readings and its four arguments.
\<close>

definition submitStar_twice ::
  "env \<Rightarrow> blockchain
     \<Rightarrow> nat \<times> nat \<times> jsstring \<times> jsstring \<times> jsstring \<times> jsstring
     \<Rightarrow> nat \<times> nat \<times> jsstring \<times> jsstring \<times> jsstring \<times> jsstring
     \<Rightarrow> (rejection + block) \<times> (rejection + block) \<times> blockchain" where
  "submitStar_twice env bc c1 c2 =
     (case c1 of (now1, now1', address1, message1, signature1, star1) \<Rightarrow>
      case c2 of (now2, now2', address2, message2, signature2, star2) \<Rightarrow>
        (let q1 = submitStar_read env now1 bc address1 message1 signature1 star1;
             q2 = submitStar_read env now2 bc address2 message2 signature2 star2;
             (r1, bc1) = submitStar_callback env now1' q1 bc;
             (r2, bc2) = submitStar_callback env now2' q2 bc1
         in (r1, r2, bc2)))"

text \<open>The two lookups; \<open>None\<close> is \<^verbatim>\<open>null\<close>.\<close>

definition getBlockByHash :: "jsstring \<Rightarrow> blockchain \<Rightarrow> block option \<times> blockchain" where
  "getBlockByHash h bc = (find (\<lambda>b. hash b = Some h) (chain bc), bc)"

definition getBlockByHeight :: "int \<Rightarrow> blockchain \<Rightarrow> block option \<times> blockchain" where
  "getBlockByHeight n bc =
     (case js_index (filter (\<lambda>p. block.height p = n) (chain bc)) 0 of
        Some b \<Rightarrow> (Some b, bc)
      | None \<Rightarrow> (None, bc))"

section \<open>Operations that register callbacks\<close>

text \<open>
  \<^verbatim>\<open>validateChain\<close> and \<^verbatim>\<open>getStarsByWalletAddress\<close> call \<^verbatim>\<open>.then\<close> on the
  promises of the blocks. A callback given to \<^verbatim>\<open>.then\<close> never runs inside the
  call that registers it: it is queued, and runs after the function that is
  running has returned. The model keeps the queue explicit. The executor of an
  operation is the part that runs at once; it registers one reaction for each
  block and settles the promise of the operation. The reactions run afterwards.
  They are taken in the order of their registration, which is their order when
  the promises of the blocks settle in the order of their creation. A promise
  settles once: \<open>resolve\<close> and \<open>reject\<close> change a pending promise only.
\<close>

datatype ('v, 'e) promise = Pending | Fulfilled 'v | Rejected 'e

definition resolve :: "'v \<Rightarrow> ('v, 'e) promise \<Rightarrow> ('v, 'e) promise" where
  "resolve v p = (case p of Pending \<Rightarrow> Fulfilled v | _ \<Rightarrow> p)"

definition reject :: "'e \<Rightarrow> ('v, 'e) promise \<Rightarrow> ('v, 'e) promise" where
  "reject e p = (case p of Pending \<Rightarrow> Rejected e | _ \<Rightarrow> p)"

subsection \<open>validateChain\<close>

text \<open>
  The state of one call: the array \<^verbatim>\<open>errorLog\<close>, the variable
  \<^verbatim>\<open>previousBlockHash\<close> of line 234 (here \<open>expected\<close>), the blocks whose
  reaction is registered and has not run, and the promise that the call returns.
\<close>

record vc_state =
  errorLog :: "(block \<times> jsstring) list"
  expected :: "jsstring option"
  vc_reactions :: "block list"
  vc_promise :: "(unit, (block \<times> jsstring) list) promise"

text \<open>The loop of line 236: each iteration registers the two callbacks of a block.\<close>

fun vc_loop :: "block list \<Rightarrow> vc_state \<Rightarrow> vc_state" where
  "vc_loop [] st = st"
| "vc_loop (b # bs) st = vc_loop bs (st\<lparr>vc_reactions := vc_reactions st @ [b]\<rparr>)"

definition validateChain_executor :: "blockchain \<Rightarrow> vc_state" where
  "validateChain_executor bc =
     (let st = vc_loop (chain bc)
                 \<lparr>errorLog = [], expected = None, vc_reactions = [], vc_promise = Pending\<rparr>
      in if length (errorLog st) = 0
         then st\<lparr>vc_promise := resolve () (vc_promise st)\<rparr>
         else st\<lparr>vc_promise := reject (errorLog st) (vc_promise st)\<rparr>)"

text \<open>
  The callbacks of lines 238 to 250 for one block: the first when the
  promise of \<^verbatim>\<open>block.validate()\<close> is fulfilled, the second when it is rejected.
\<close>

definition vc_reaction :: "env \<Rightarrow> vc_state \<Rightarrow> block \<Rightarrow> vc_state" where
  "vc_reaction env st b =
     (if validate env b then
        (if expected st = previousBlockHash b
         then st\<lparr>expected := hash b\<rparr>
         else st\<lparr>errorLog := errorLog st @ [(b, (js ''previous hash does not match''))]\<rparr>)
      else st\<lparr>errorLog := errorLog st @ [(b, (js ''Block validation fails''))]\<rparr>)"

definition vc_run_reactions :: "env \<Rightarrow> vc_state \<Rightarrow> vc_state" where
  "vc_run_reactions env st =
     foldl (vc_reaction env) (st\<lparr>vc_reactions := []\<rparr>) (vc_reactions st)"

text \<open>
  The call with its reactions run: \<open>vc_promise\<close> of the result is what the caller
  of \<^verbatim>\<open>validateChain\<close> receives, \<open>errorLog\<close> the final content of the array.
\<close>

definition validateChain :: "env \<Rightarrow> blockchain \<Rightarrow> vc_state" where
  "validateChain env bc = vc_run_reactions env (validateChain_executor bc)"

subsection \<open>getStarsByWalletAddress\<close>

text \<open>
  The variable \<^verbatim>\<open>stars\<close> is bound to two arrays in turn, and the promise is
  resolved with the second one, which the reactions extend afterwards. Arrays
  therefore live in a store indexed by addresses. An array holds blocks (what
  \<^verbatim>\<open>filter\<close> keeps) or star entries (what the reactions push).
\<close>

datatype element = Kept block | Entry jsstring jsstring

record gs_state =
  arrays :: "nat \<Rightarrow> element list"
  stars :: nat
  gs_reactions :: "block list"
  gs_promise :: "(nat, rejection) promise"

text \<open>
  \<^verbatim>\<open>self.chain.filter(...)\<close> of line 206. The predicate registers the reaction
  of the block and returns nothing, which \<^verbatim>\<open>filter\<close> reads as false.
\<close>

fun gs_filter :: "block list \<Rightarrow> gs_state \<Rightarrow> block list \<times> gs_state" where
  "gs_filter [] st = ([], st)"
| "gs_filter (b # bs) st =
     (let st1 = st\<lparr>gs_reactions := gs_reactions st @ [b]\<rparr>;
          keep = False;
          (ks, st2) = gs_filter bs st1
      in (if keep then b # ks else ks, st2))"

definition getStars_executor :: "blockchain \<Rightarrow> gs_state" where
  "getStars_executor bc =
     (let st0 = \<lparr>arrays = (\<lambda>a. []), stars = 0, gs_reactions = [], gs_promise = Pending\<rparr>;
          (ks, st1) = gs_filter (chain bc) st0;
          st2 = st1\<lparr>arrays := (arrays st1)(1 := map Kept ks), stars := 1\<rparr>
      in st2\<lparr>gs_promise := resolve (stars st2) (gs_promise st2)\<rparr>)"

text \<open>
  The callback of lines 208 to 217 for one block. A decoded genesis payload has
  no \<^verbatim>\<open>address\<close>, and \<^verbatim>\<open>undefined\<close> equals no string.
\<close>

definition gs_reaction :: "env \<Rightarrow> jsstring \<Rightarrow> gs_state \<Rightarrow> block \<Rightarrow> gs_state" where
  "gs_reaction env address st b =
     (case getBData env b of
        None \<Rightarrow> st\<lparr>gs_promise := reject DecodeError (gs_promise st)\<rparr>
      | Some (GenesisData d) \<Rightarrow> st
      | Some (StarData a m s star) \<Rightarrow>
          if a = address
          then st\<lparr>arrays := (arrays st)(stars st := arrays st (stars st) @ [Entry address star])\<rparr>
          else st)"

definition gs_run_reactions :: "env \<Rightarrow> jsstring \<Rightarrow> gs_state \<Rightarrow> gs_state" where
  "gs_run_reactions env address st =
     foldl (gs_reaction env address) (st\<lparr>gs_reactions := []\<rparr>) (gs_reactions st)"

definition getStarsByWalletAddress :: "env \<Rightarrow> jsstring \<Rightarrow> blockchain \<Rightarrow> gs_state" where
  "getStarsByWalletAddress env address bc =
     gs_run_reactions env address (getStars_executor bc)"

text \<open>The list a settled promise of the operation holds in a given state.\<close>

definition resolved_list :: "gs_state \<Rightarrow> element list option" where
  "resolved_list st =
     (case gs_promise st of Fulfilled a \<Rightarrow> Some (arrays st a) | _ \<Rightarrow> None)"

section \<open>Properties of a ledger\<close>

text \<open>
  The invariant of the chain: heights are indices, every block after the first
  carries the hash of its predecessor, the first block has no previous hash,
  and the cached height is the length minus one.
\<close>

definition heights_ok :: "block list \<Rightarrow> bool" where
  "heights_ok bs = list_all (\<lambda>i. block.height (bs ! i) = int i) [0..<length bs]"

definition links_ok :: "block list \<Rightarrow> bool" where
  "links_ok bs =
     list_all (\<lambda>i. previousBlockHash (bs ! i) = hash (bs ! (i - 1))) [1..<length bs]"

definition genesis_ok :: "block list \<Rightarrow> bool" where
  "genesis_ok bs =
     (case bs of [] \<Rightarrow> True | g # _ \<Rightarrow> block.height g = 0 \<and> previousBlockHash g = None)"

definition ledger_inv :: "blockchain \<Rightarrow> bool" where
  "ledger_inv bc =
     (heights_ok (chain bc) \<and> links_ok (chain bc) \<and> genesis_ok (chain bc)
      \<and> blockchain.height bc = int (length (chain bc)) - 1)"

text \<open>The ledgers that the constructor and submissions produce.\<close>

inductive reachable :: "env \<Rightarrow> blockchain \<Rightarrow> bool" for env :: env where
  constructed: "reachable env (Blockchain_new env now)"
| submitted:
    "reachable env bc \<Longrightarrow>
     reachable env (snd (submitStar env now now' bc address message signature star))"

section \<open>A small instance\<close>

text \<open>
  Deterministic stand-ins for the libraries and the block class, to run the
  operations on concrete ledgers: the digest marks its input, the serialiser
  lists the five fields, a signature is valid when it is the address after
  \<open>by\<close> and malformed when empty, the validation promise of a block is rejected
  when the self-validation of the block fails, and a payload is decoded by
  splitting it.
\<close>

definition show_hash :: "jsstring option \<Rightarrow> jsstring" where
  "show_hash h = (case h of None \<Rightarrow> (js ''null'') | Some s \<Rightarrow> s)"

definition fake_stringify :: "block \<Rightarrow> jsstring" where
  "fake_stringify b =
     show_hash (hash b) @ (js '';'') @ toString (nat (block.height b)) @ (js '';'') @ body b @ (js '';'')
       @ time b @ (js '';'') @ show_hash (previousBlockHash b)"

definition fake_encode :: "bdata \<Rightarrow> jsstring" where
  "fake_encode d =
     (case d of
        GenesisData s \<Rightarrow> s
      | StarData a m s star \<Rightarrow> a @ (js ''|'') @ m @ (js ''|'') @ s @ (js ''|'') @ star)"

definition fake_getBData :: "block \<Rightarrow> bdata option" where
  "fake_getBData b =
     (case split (cu CHR ''|'') (body b) of
        [d] \<Rightarrow> Some (GenesisData d)
      | [a, m, sg, star] \<Rightarrow> Some (StarData a m sg star)
      | _ \<Rightarrow> None)"

definition fake_SHA256 :: "jsstring \<Rightarrow> jsstring" where
  "fake_SHA256 s = (js ''#'') @ s"

definition fake_validate :: "block \<Rightarrow> bool" where
  "fake_validate b = (hash b = Some (fake_SHA256 (fake_stringify (content b))))"

definition fake_verify :: "jsstring \<Rightarrow> jsstring \<Rightarrow> jsstring \<Rightarrow> jsstring + bool" where
  "fake_verify message address signature =
     (if signature = [] then Inl (js ''Invalid signature length'')
      else Inr (signature = (js ''by '') @ address))"

definition fake_env :: env where
  "fake_env =
     \<lparr>SHA256 = fake_SHA256, JSON_stringify = fake_stringify, verify = fake_verify,
      encode = fake_encode, validate = fake_validate, getBData = fake_getBData\<rparr>"

text \<open>
  A ledger constructed at second 1700000000, and the same ledger after wallet
  \<open>A\<close> has registered a star with a challenge ten seconds old.
\<close>

definition ledger0 :: blockchain where
  "ledger0 = Blockchain_new fake_env 1700000000000"

definition ledger1 :: blockchain where
  "ledger1 =
     snd (submitStar fake_env 1700000010000 1700000010001 ledger0
            (js ''A'') (js ''A:1700000000:starRegistry'') (js ''by A'') (js ''star1''))"

text \<open>The star block of \<open>ledger1\<close> with its payload overwritten after sealing.\<close>

definition tampered :: blockchain where
  "tampered = ledger1\<lparr>chain := (chain ledger1)[1 := (chain ledger1 ! 1)\<lparr>body := (js ''forged'')\<rparr>]\<rparr>"

text \<open>
  A ledger of three blocks whose second block does not carry the hash of the
  first, although each block carries the digest of its own content and the third
  carries the hash of the second.
\<close>

definition reseal :: "env \<Rightarrow> block \<Rightarrow> block" where
  "reseal env b = b\<lparr>hash := Some (SHA256 env (JSON_stringify env (content b)))\<rparr>"

definition unlinked :: blockchain where
  "unlinked =
     snd (addBlock fake_env 1700000020000
            (ledger1\<lparr>chain := (chain ledger1)
               [1 := reseal fake_env ((chain ledger1 ! 1)\<lparr>previousBlockHash := Some (js ''elsewhere'')\<rparr>)]\<rparr>)
            (Block fake_env (StarData (js ''B'') (js ''B:1700000015:starRegistry'') (js ''by B'') (js ''star2''))))"

text \<open>
  Wallets \<open>A\<close> and \<open>B\<close> each submit a star to \<open>ledger0\<close>, the second call
  made right after the first.
\<close>

definition raced :: "(rejection + block) \<times> (rejection + block) \<times> blockchain" where
  "raced =
     submitStar_twice fake_env ledger0
       (1700000010000, 1700000010002,
        js ''A'', js ''A:1700000000:starRegistry'', js ''by A'', js ''star1'')
       (1700000010001, 1700000010003,
        js ''B'', js ''B:1700000000:starRegistry'', js ''by B'', js ''star2'')"

section \<open>Appending a block\<close>

lemma js_index_last:
  "xs \<noteq> [] \<Longrightarrow> js_index xs (int (length xs) - 1) = Some (last xs)"
  by (cases xs rule: rev_cases) (auto simp: js_index_def nth_append)

lemma addBlock_cases:
  "addBlock env now bc b = (Inl TypeError, bc) \<or>
   (\<exists>b'. addBlock env now bc b =
           (Inr b', bc\<lparr>chain := chain bc @ [b'], height := blockchain.height bc + 1\<rparr>))"
  by (simp add: addBlock_def addBlock_then_def Let_def split: option.splits)

lemma addBlock_Inr:
  assumes "addBlock env now bc b = (Inr b', bc')"
  shows "chain bc' = chain bc @ [b']"
    and "blockchain.height bc' = blockchain.height bc + 1"
    and "block.height b' = blockchain.height bc + 1"
    and "body b' = body b"
    and "hash b' = Some (SHA256 env (JSON_stringify env (b'\<lparr>hash := hash b\<rparr>)))"
    and "blockchain.height bc > -1 \<Longrightarrow>
           \<exists>p. js_index (chain bc) (blockchain.height bc) = Some p \<and> previousBlockHash b' = hash p"
    and "\<not> blockchain.height bc > -1 \<Longrightarrow> previousBlockHash b' = previousBlockHash b"
  using assms
  by (auto simp: addBlock_def addBlock_then_def Let_def getChainHeight_def split: option.splits if_splits)

lemma addBlock_succeeds:
  assumes "blockchain.height bc = int (length (chain bc)) - 1"
  shows "\<exists>b'. addBlock env now bc b =
           (Inr b', bc\<lparr>chain := chain bc @ [b'], height := blockchain.height bc + 1\<rparr>)"
proof (cases "chain bc = []")
  case True
  with assms show ?thesis
    by (simp add: addBlock_def addBlock_then_def Let_def getChainHeight_def)
next
  case False
  with assms js_index_last [OF False] show ?thesis
    by (simp add: addBlock_def addBlock_then_def Let_def getChainHeight_def)
qed

lemma heights_ok_snoc:
  "heights_ok (bs @ [b]) \<longleftrightarrow> heights_ok bs \<and> block.height b = int (length bs)"
  by (auto simp: heights_ok_def list_all_iff nth_append less_Suc_eq)

lemma links_ok_snoc:
  "links_ok (bs @ [b]) \<longleftrightarrow>
     links_ok bs \<and> (bs \<noteq> [] \<longrightarrow> previousBlockHash b = hash (last bs))"
proof (cases bs rule: rev_cases)
  case Nil
  then show ?thesis by (simp add: links_ok_def)
next
  case (snoc ys y)
  have "\<And>i. 1 \<le> i \<Longrightarrow> i < length bs \<Longrightarrow>
          (bs @ [b]) ! i = bs ! i \<and> (bs @ [b]) ! (i - 1) = bs ! (i - 1)"
    by (simp add: nth_append)
  moreover have "(bs @ [b]) ! length bs = b" by simp
  moreover have "(bs @ [b]) ! (length bs - 1) = last bs"
    using snoc by (simp add: nth_append)
  moreover have "1 \<le> length bs" using snoc by simp
  ultimately show ?thesis
    using snoc by (auto simp: links_ok_def list_all_iff less_Suc_eq)
qed

lemma genesis_ok_snoc:
  "genesis_ok (bs @ [b]) \<longleftrightarrow>
     (if bs = [] then block.height b = 0 \<and> previousBlockHash b = None else genesis_ok bs)"
  by (cases bs) (simp_all add: genesis_ok_def)

lemma addBlock_preserves_inv:
  assumes inv: "ledger_inv bc"
    and ok: "addBlock env now bc b = (Inr b', bc')"
    and gen: "chain bc \<noteq> [] \<or> previousBlockHash b = None"
  shows "ledger_inv bc'"
proof -
  note facts = addBlock_Inr [OF ok]
  have h: "blockchain.height bc = int (length (chain bc)) - 1"
    using inv by (simp add: ledger_inv_def)
  have hb: "block.height b' = int (length (chain bc))"
    using facts(3) h by simp
  have link: "previousBlockHash b' = hash (last (chain bc))" if ne: "chain bc \<noteq> []"
  proof -
    from ne h have "blockchain.height bc > -1"
      by (cases "chain bc") simp_all
    from facts(6) [OF this] obtain p where
      "js_index (chain bc) (blockchain.height bc) = Some p" "previousBlockHash b' = hash p"
      by blast
    with js_index_last [OF ne] h show ?thesis by simp
  qed
  have first: "previousBlockHash b' = None" if e: "chain bc = []"
  proof -
    from e h have "\<not> blockchain.height bc > -1" by simp
    from facts(7) [OF this] gen e show ?thesis by simp
  qed
  show ?thesis
    using inv facts(1,2) h hb link first
    by (auto simp: ledger_inv_def heights_ok_snoc links_ok_snoc genesis_ok_snoc)
qed

lemma ledger_inv_empty: "ledger_inv \<lparr>chain = [], height = -1\<rparr>"
  by (simp add: ledger_inv_def heights_ok_def links_ok_def genesis_ok_def)

lemma genesis_added:
  "\<exists>g. addBlock env now \<lparr>chain = [], height = -1\<rparr> (Block env (GenesisData (js ''Genesis Block'')))
          = (Inr g, Blockchain_new env now) \<and>
        chain (Blockchain_new env now) = [g]"
  using addBlock_succeeds [of "\<lparr>chain = [], height = -1\<rparr>" env now
          "Block env (GenesisData (js ''Genesis Block''))"]
  by (auto simp: Blockchain_new_def initializeChain_def)

lemma Blockchain_new_inv: "ledger_inv (Blockchain_new env now)"
proof -
  from genesis_added [of env now] obtain g where
    "addBlock env now \<lparr>chain = [], height = -1\<rparr> (Block env (GenesisData (js ''Genesis Block'')))
       = (Inr g, Blockchain_new env now)"
    by blast
  from addBlock_preserves_inv [OF ledger_inv_empty this] show ?thesis
    by (simp add: Block_def)
qed

lemma ledger_inv_explicit:
  "ledger_inv bc \<longleftrightarrow>
     (\<forall>i < length (chain bc). block.height (chain bc ! i) = int i) \<and>
     (\<forall>i. 0 < i \<and> i < length (chain bc) \<longrightarrow>
          previousBlockHash (chain bc ! i) = hash (chain bc ! (i - 1))) \<and>
     (chain bc \<noteq> [] \<longrightarrow>
          block.height (chain bc ! 0) = 0 \<and> previousBlockHash (chain bc ! 0) = None) \<and>
     blockchain.height bc = int (length (chain bc)) - 1"
proof -
  have g: "genesis_ok (chain bc) \<longleftrightarrow>
      (chain bc \<noteq> [] \<longrightarrow>
          block.height (chain bc ! 0) = 0 \<and> previousBlockHash (chain bc ! 0) = None)"
    by (cases "chain bc") (simp_all add: genesis_ok_def)
  have l: "links_ok (chain bc) \<longleftrightarrow>
      (\<forall>i. 0 < i \<and> i < length (chain bc) \<longrightarrow>
          previousBlockHash (chain bc ! i) = hash (chain bc ! (i - 1)))"
    by (auto simp: links_ok_def list_all_iff)
  have h: "heights_ok (chain bc) \<longleftrightarrow>
      (\<forall>i < length (chain bc). block.height (chain bc ! i) = int i)"
    by (auto simp: heights_ok_def list_all_iff)
  show ?thesis unfolding ledger_inv_def g l h by blast
qed

section \<open>Submitting a star\<close>

lemma submitStar_cases:
  "submitStar env now now' bc address message signature star =
     (case verify env message address signature of
        Inl msg \<Rightarrow> (Inl (VerificationError msg), bc)
      | Inr verified \<Rightarrow>
          (case js_minus (currentTime now) (messageTime message) of
             Some e \<Rightarrow>
               if e < 300 then
                 if verified then
                   addBlock env now' bc (Block env (StarData address message signature star))
                 else (Inl InvalidSignature, bc)
               else (Inl ExpiredChallenge, bc)
           | None \<Rightarrow> (Inl ExpiredChallenge, bc)))"
  by (simp add: submitStar_def js_less_def split: sum.splits option.splits)

lemma submitStar_state:
  "snd (submitStar env now now' bc address message signature star) = bc \<or>
   (\<exists>b'. addBlock env now' bc (Block env (StarData address message signature star))
            = (Inr b', snd (submitStar env now now' bc address message signature star)))"
  using addBlock_cases [of env now' bc "Block env (StarData address message signature star)"]
  by (auto simp: submitStar_cases split: sum.splits option.splits)

lemma submitStar_in_two_parts:
  "submitStar env now now' bc address message signature star =
     submitStar_callback env now'
       (submitStar_read env now bc address message signature star) bc"
  by (simp add: submitStar_def submitStar_read_def submitStar_callback_def addBlock_def
      split: sum.splits)

lemma fresh_block_sealed:
  assumes "addBlock env now bc (Block env d) = (Inr b', bc')"
  shows "selfValidate env b'"
  using addBlock_Inr(5) [OF assms] by (simp add: selfValidate_def content_def Block_def)

lemma reachable_sealed:
  "reachable env bc \<Longrightarrow> \<forall>b \<in> set (chain bc). selfValidate env b"
proof (induction rule: reachable.induct)
  case (constructed now)
  from genesis_added [of env now] obtain g where
    a: "addBlock env now \<lparr>chain = [], height = -1\<rparr> (Block env (GenesisData (js ''Genesis Block'')))
          = (Inr g, Blockchain_new env now)"
    and c: "chain (Blockchain_new env now) = [g]"
    by blast
  from fresh_block_sealed [OF a] c show ?case by simp
next
  case (submitted bc now now' address message signature star)
  let ?bc' = "snd (submitStar env now now' bc address message signature star)"
  from submitStar_state [of env now now' bc address message signature star]
  show ?case
  proof
    assume "?bc' = bc"
    with submitted.IH show ?thesis by simp
  next
    assume "\<exists>b'. addBlock env now' bc (Block env (StarData address message signature star))
                   = (Inr b', ?bc')"
    then obtain b' where
      a: "addBlock env now' bc (Block env (StarData address message signature star))
            = (Inr b', ?bc')"
      by blast
    from addBlock_Inr(1) [OF a] fresh_block_sealed [OF a] submitted.IH show ?thesis
      by simp
  qed
qed

lemma reachable_inv: "reachable env bc \<Longrightarrow> ledger_inv bc \<and> chain bc \<noteq> []"
proof (induction rule: reachable.induct)
  case (constructed now)
  from genesis_added [of env now] Blockchain_new_inv [of env now] show ?case
    by auto
next
  case (submitted bc now now' address message signature star)
  let ?bc' = "snd (submitStar env now now' bc address message signature star)"
  from submitStar_state [of env now now' bc address message signature star]
  show ?case
  proof
    assume "?bc' = bc"
    with submitted.IH show ?thesis by simp
  next
    assume "\<exists>b'. addBlock env now' bc (Block env (StarData address message signature star))
                   = (Inr b', ?bc')"
    then obtain b' where
      a: "addBlock env now' bc (Block env (StarData address message signature star))
            = (Inr b', ?bc')"
      by blast
    from addBlock_preserves_inv [OF _ a] submitted.IH have "ledger_inv ?bc'" by simp
    moreover from addBlock_Inr(1) [OF a] have "chain ?bc' \<noteq> []" by simp
    ultimately show ?thesis by simp
  qed
qed

section \<open>The message time and the clock\<close>

lemma split_no_sep: "sep \<notin> set s \<Longrightarrow> split sep s = [s]"
  by (induction s) auto

lemma parseInt_undefined: "parseInt None = None"
  by (simp add: parseInt_def is_space_def parse_unsigned_def parse_digits_def digit_val_def
      js_def cu_def)

lemma messageTime_absent: "(cu CHR '':'') \<notin> set message \<Longrightarrow> messageTime message = None"
  by (simp add: messageTime_def split_no_sep js_index_def parseInt_undefined)

lemma messageTime_skips_no_break_space:
  "messageTime (js ''A:'' @ [0x00A0] @ js ''1700000000:starRegistry'') = Some 1700000000"
  by (simp add: messageTime_def js_def cu_def js_index_def parseInt_def is_space_def
      parse_unsigned_def parse_digits_def digit_val_def digits_value_def)

text \<open>
  The clock string read back as a number is the clock in whole seconds, once the
  clock shows at least one second.
\<close>

lemma digit_val_digit_char: "d < 10 \<Longrightarrow> digit_val 10 (digit_char d) = Some d"
  by (simp add: digit_val_def digit_char_def cu_def)

lemma digit_char_plain:
  "d < 10 \<Longrightarrow> \<not> is_space (digit_char d) \<and> digit_char d \<noteq> cu CHR ''-'' \<and>
     digit_char d \<noteq> cu CHR ''+'' \<and> digit_char d \<noteq> cu CHR ''x'' \<and> digit_char d \<noteq> cu CHR ''X''"
  by (auto simp: is_space_def digit_char_def cu_def)

lemma toString_small: "n < 10 \<Longrightarrow> toString n = [digit_char n]"
  by (simp add: toString.simps)

lemma toString_large: "\<not> n < 10 \<Longrightarrow> toString n = toString (n div 10) @ [digit_char (n mod 10)]"
  by (subst toString.simps) simp

lemma toString_digits: "c \<in> set (toString n) \<Longrightarrow> \<exists>d<10. c = digit_char d"
proof (induction n rule: toString.induct)
  case (1 n)
  show ?case
  proof (cases "n < 10")
    case True
    with "1.prems" show ?thesis by (auto simp: toString_small)
  next
    case False
    with "1.prems" have "c \<in> set (toString (n div 10)) \<or> c = digit_char (n mod 10)"
      by (auto simp: toString_large)
    then show ?thesis
    proof
      assume "c \<in> set (toString (n div 10))"
      with "1.IH" [OF False] show ?thesis by blast
    next
      assume "c = digit_char (n mod 10)"
      moreover have "n mod 10 < 10" by simp
      ultimately show ?thesis by blast
    qed
  qed
qed

lemma toString_nonempty: "toString n \<noteq> []"
  by (cases "n < 10") (simp_all add: toString_small toString_large)

lemma digits_value_snoc:
  "digits_value r (ds @ [c]) = digits_value r ds * r + the (digit_val r c)"
  by (simp add: digits_value_def)

lemma digits_value_toString: "digits_value 10 (toString n) = n"
proof (induction n rule: toString.induct)
  case (1 n)
  show ?case
  proof (cases "n < 10")
    case True
    then show ?thesis
      by (simp add: toString_small digits_value_def digit_val_digit_char)
  next
    case False
    have "n mod 10 < 10" by simp
    with "1.IH" [OF False] False show ?thesis
      by (simp add: toString_large digits_value_snoc digit_val_digit_char)
  qed
qed

lemma toString_plain:
  assumes "c \<in> set (toString n)"
  shows "digit_val 10 c \<noteq> None" and "\<not> is_space c" and "c \<noteq> (cu CHR ''-'')"
    and "c \<noteq> (cu CHR ''+'')" and "c \<noteq> (cu CHR ''x'')" and "c \<noteq> (cu CHR ''X'')"
proof -
  from toString_digits [OF assms] obtain d where d: "d < 10" "c = digit_char d"
    by blast
  from digit_val_digit_char [OF d(1)] d(2) show "digit_val 10 c \<noteq> None"
    by simp
  from digit_char_plain [OF d(1)] d(2)
  show "\<not> is_space c" and "c \<noteq> (cu CHR ''-'')" and "c \<noteq> (cu CHR ''+'')"
    and "c \<noteq> (cu CHR ''x'')" and "c \<noteq> (cu CHR ''X'')"
    by simp_all
qed

lemma parse_digits_toString: "parse_digits 10 (toString n) = Some n"
proof -
  have "takeWhile (\<lambda>c. digit_val 10 c \<noteq> None) (toString n) = toString n"
    using toString_plain(1) by (simp only: takeWhile_eq_all_conv) blast
  then show ?thesis
    by (simp only: parse_digits_def Let_def)
       (simp add: toString_nonempty digits_value_toString)
qed

lemma parse_unsigned_toString: "parse_unsigned (toString n) = Some n"
proof -
  have "take 2 (toString n) \<noteq> (js ''0x'')"
  proof
    assume "take 2 (toString n) = (js ''0x'')"
    then have "(cu CHR ''x'') \<in> set (take 2 (toString n))" by (simp add: js_def)
    then have "(cu CHR ''x'') \<in> set (toString n)" by (rule in_set_takeD)
    with toString_plain(5) show False by blast
  qed
  moreover have "take 2 (toString n) \<noteq> (js ''0X'')"
  proof
    assume "take 2 (toString n) = (js ''0X'')"
    then have "(cu CHR ''X'') \<in> set (take 2 (toString n))" by (simp add: js_def)
    then have "(cu CHR ''X'') \<in> set (toString n)" by (rule in_set_takeD)
    with toString_plain(6) show False by blast
  qed
  ultimately show ?thesis
    by (simp add: parse_unsigned_def parse_digits_toString)
qed

lemma parseInt_toString: "parseInt (Some (toString n)) = Some (int n)"
proof -
  obtain c r where s: "toString n = c # r"
    using toString_nonempty [of n] by (cases "toString n") auto
  then have m: "c \<in> set (toString n)" by simp
  note c = toString_plain(2-4) [OF m]
  from c(1) s have "dropWhile is_space (toString n) = c # r" by simp
  with c s parse_unsigned_toString [of n] show ?thesis
    by (simp add: parseInt_def)
qed

lemma parseInt_empty: "parseInt (Some []) = None"
  by (simp add: parseInt_def)

lemma seconds_string_eq:
  "seconds_string now = (if now < 1000 then [] else toString (now div 1000))"
proof (cases "now < 10")
  case True
  then show ?thesis by (simp add: seconds_string_def slice_0_m3_def toString_small)
next
  case a: False
  show ?thesis
  proof (cases "now div 10 < 10")
    case True
    with a have "now < 1000" by simp
    with a True show ?thesis
      by (simp add: seconds_string_def slice_0_m3_def toString_large [of now] toString_small)
  next
    case b: False
    show ?thesis
    proof (cases "now div 10 div 10 < 10")
      case True
      then have "now < 1000" by (simp add: div_mult2_eq [symmetric] less_mult_imp_div_less)
      with a b True show ?thesis
        by (simp add: seconds_string_def slice_0_m3_def toString_large [of now]
            toString_large [of "now div 10"] toString_small)
    next
      case c: False
      then have "\<not> now < 1000" by (simp add: div_mult2_eq [symmetric])
      moreover have "now div 10 div 10 div 10 = now div 1000"
        by (simp add: div_mult2_eq [symmetric])
      ultimately show ?thesis
        using a b c
        by (simp add: seconds_string_def slice_0_m3_def toString_large [of now]
            toString_large [of "now div 10"] toString_large [of "now div 10 div 10"])
    qed
  qed
qed

lemma currentTime_eq:
  "currentTime now = (if now < 1000 then None else Some (int (now div 1000)))"
  by (simp add: currentTime_def seconds_string_eq parseInt_empty parseInt_toString)

section \<open>Callbacks run after the promise has settled\<close>

lemma vc_loop_reactions:
  "vc_loop bs st = st\<lparr>vc_reactions := vc_reactions st @ bs\<rparr>"
  by (induction bs arbitrary: st) simp_all

lemma validateChain_executor_eq:
  "validateChain_executor bc =
     \<lparr>errorLog = [], expected = None, vc_reactions = chain bc, vc_promise = Fulfilled ()\<rparr>"
  by (simp add: validateChain_executor_def vc_loop_reactions resolve_def)

lemma vc_reaction_promise: "vc_promise (vc_reaction env st b) = vc_promise st"
  by (simp add: vc_reaction_def)

lemma vc_fold_promise: "vc_promise (foldl (vc_reaction env) st bs) = vc_promise st"
  by (induction bs arbitrary: st) (simp_all add: vc_reaction_promise)

text \<open>
  Whatever the chain holds, the promise of \<open>validateChain\<close> is fulfilled, with no
  error record: the array is still empty when line 253 reads its length.
\<close>

lemma validateChain_always_fulfilled: "vc_promise (validateChain env bc) = Fulfilled ()"
  by (simp add: validateChain_def vc_run_reactions_def vc_fold_promise validateChain_executor_eq)

lemma gs_filter_eq:
  "gs_filter bs st = ([], st\<lparr>gs_reactions := gs_reactions st @ bs\<rparr>)"
  by (induction bs arbitrary: st) simp_all

text \<open>
  Whatever the chain holds, \<open>getStarsByWalletAddress\<close> resolves with the empty
  array that \<^verbatim>\<open>filter\<close> returned, with the reaction of every block still to run.
\<close>

lemma getStars_executor_eq:
  "getStars_executor bc =
     \<lparr>arrays = (\<lambda>a. []), stars = 1, gs_reactions = chain bc, gs_promise = Fulfilled 1\<rparr>"
  by (simp add: getStars_executor_def gs_filter_eq resolve_def fun_eq_iff)

lemma stale_expected:
  "\<forall>b \<in> set bs. validate env b \<and> previousBlockHash b \<noteq> expected st \<Longrightarrow>
   expected (foldl (vc_reaction env) st bs) = expected st \<and>
   errorLog (foldl (vc_reaction env) st bs) =
     errorLog st @ map (\<lambda>b. (b, (js ''previous hash does not match''))) bs"
proof (induction bs arbitrary: st)
  case Nil
  then show ?case by simp
next
  case (Cons b bs)
  let ?st = "vc_reaction env st b"
  from Cons.prems have e: "expected ?st = expected st"
    and l: "errorLog ?st = errorLog st @ [(b, (js ''previous hash does not match''))]"
    by (auto simp: vc_reaction_def)
  from Cons.prems e have "\<forall>b \<in> set bs. validate env b \<and> previousBlockHash b \<noteq> expected ?st"
    by simp
  from Cons.IH [OF this] e l show ?case by simp
qed

section \<open>The small instance evaluated\<close>

lemmas string_defs = seconds_string_def slice_0_m3_def toString.simps
  digit_char_def parseInt_def is_space_def parse_unsigned_def parse_digits_def digit_val_def
  digits_value_def js_index_def

lemmas fake_defs = js_def cu_def fake_env_def fake_stringify_def fake_encode_def fake_getBData_def
  fake_verify_def fake_SHA256_def fake_validate_def show_hash_def

lemma messageTime_A: "messageTime (js ''A:1700000000:starRegistry'') = Some 1700000000"
  by (simp add: messageTime_def js_def cu_def string_defs)

lemma elapsed_10:
  "js_minus (currentTime 1700000010000) (messageTime (js ''A:1700000000:starRegistry'')) = Some 10"
  by (simp add: js_minus_def currentTime_eq messageTime_A)

lemma elapsed_299:
  "js_minus (currentTime 1700000299999) (messageTime (js ''A:1700000000:starRegistry'')) = Some 299"
  by (simp add: js_minus_def currentTime_eq messageTime_A)

lemma elapsed_300:
  "js_minus (currentTime 1700000300000) (messageTime (js ''A:1700000000:starRegistry'')) = Some 300"
  by (simp add: js_minus_def currentTime_eq messageTime_A)

lemma fake_verify_true: "verify fake_env (js ''A:1700000000:starRegistry'') (js ''A'') (js ''by A'') = Inr True"
  by (simp add: fake_defs)

lemma elapsed_B:
  "js_minus (currentTime 1700000010001) (messageTime (js ''B:1700000000:starRegistry''))
     = Some 10"
  by (simp add: js_minus_def currentTime_eq messageTime_def js_def cu_def string_defs)

lemma fake_verify_B:
  "verify fake_env (js ''B:1700000000:starRegistry'') (js ''B'') (js ''by B'') = Inr True"
  by (simp add: fake_defs)

lemma fake_verify_false: "verify fake_env (js ''A:1700000000:starRegistry'') (js ''A'') (js ''by B'') = Inr False"
  by (simp add: fake_defs)

lemma ledger0_eq:
  "ledger0 =
     \<lparr>chain =
        [\<lparr>hash = Some (js ''#null;0;Genesis Block;1700000000;null''), height = 0,
          body = (js ''Genesis Block''), time = (js ''1700000000''), previousBlockHash = None\<rparr>],
      height = 0\<rparr>"
  by (simp add: ledger0_def Blockchain_new_def initializeChain_def addBlock_def addBlock_then_def
      getChainHeight_def Block_def Let_def string_defs fake_defs)

lemma ledger1_eq:
  "ledger1 =
     \<lparr>chain =
        [\<lparr>hash = Some (js ''#null;0;Genesis Block;1700000000;null''), height = 0,
          body = (js ''Genesis Block''), time = (js ''1700000000''), previousBlockHash = None\<rparr>,
         \<lparr>hash = Some ((js ''#null;1;A|A:1700000000:starRegistry|by A|star1;1700000010;'')
                         @ (js ''#null;0;Genesis Block;1700000000;null'')),
          height = 1, body = (js ''A|A:1700000000:starRegistry|by A|star1''),
          time = (js ''1700000010''),
          previousBlockHash = Some (js ''#null;0;Genesis Block;1700000000;null'')\<rparr>],
      height = 1\<rparr>"
  by (simp add: ledger1_def submitStar_cases elapsed_10 fake_verify_true)
     (simp add: ledger0_eq addBlock_def addBlock_then_def getChainHeight_def Block_def Let_def
        string_defs fake_defs)

lemma tampered_eq:
  "tampered =
     \<lparr>chain =
        [\<lparr>hash = Some (js ''#null;0;Genesis Block;1700000000;null''), height = 0,
          body = (js ''Genesis Block''), time = (js ''1700000000''), previousBlockHash = None\<rparr>,
         \<lparr>hash = Some ((js ''#null;1;A|A:1700000000:starRegistry|by A|star1;1700000010;'')
                         @ (js ''#null;0;Genesis Block;1700000000;null'')),
          height = 1, body = (js ''forged''), time = (js ''1700000010''),
          previousBlockHash = Some (js ''#null;0;Genesis Block;1700000000;null'')\<rparr>],
      height = 1\<rparr>"
  by (simp add: tampered_def ledger1_eq)

lemma unlinked_eq:
  "unlinked =
     \<lparr>chain =
        [\<lparr>hash = Some (js ''#null;0;Genesis Block;1700000000;null''), height = 0,
          body = (js ''Genesis Block''), time = (js ''1700000000''), previousBlockHash = None\<rparr>,
         \<lparr>hash = Some (js ''#null;1;A|A:1700000000:starRegistry|by A|star1;1700000010;elsewhere''),
          height = 1, body = (js ''A|A:1700000000:starRegistry|by A|star1''),
          time = (js ''1700000010''), previousBlockHash = Some (js ''elsewhere'')\<rparr>,
         \<lparr>hash = Some ((js ''#null;2;B|B:1700000015:starRegistry|by B|star2;1700000020;'')
                         @ (js ''#null;1;A|A:1700000000:starRegistry|by A|star1;1700000010;elsewhere'')),
          height = 2, body = (js ''B|B:1700000015:starRegistry|by B|star2''),
          time = (js ''1700000020''),
          previousBlockHash =
            Some (js ''#null;1;A|A:1700000000:starRegistry|by A|star1;1700000010;elsewhere'')\<rparr>],
      height = 2\<rparr>"
  by (simp add: unlinked_def ledger1_eq reseal_def content_def addBlock_def addBlock_then_def
      getChainHeight_def Block_def Let_def string_defs fake_defs)

lemma ledger0_inv: "ledger_inv ledger0"
  by (simp add: ledger0_eq ledger_inv_def heights_ok_def links_ok_def genesis_ok_def)

lemma ledger0_height: "blockchain.height ledger0 = int (length (chain ledger0)) - 1"
  by (simp add: ledger0_eq)

section \<open>The claims of the specification\<close>

text \<open>
  C3, as stated, fails. When \<open>A\<close> and \<open>B\<close> submit back to back, both calls
  read height 0 before either callback runs. Both appends succeed; the block of
  \<open>B\<close> is stored at index 2 with height 1 and with the hash of the genesis
  block as its previous hash, not the hash of the block at index 1.
\<close>

theorem overlapping_submissions_counterexample:
  "\<not> isl (fst raced) \<and>
   \<not> isl (fst (snd raced)) \<and>
   map block.height (chain (snd (snd raced))) = [0, 1, 1] \<and>
   previousBlockHash (chain (snd (snd raced)) ! 2) = hash (chain (snd (snd raced)) ! 0) \<and>
   previousBlockHash (chain (snd (snd raced)) ! 2) \<noteq> hash (chain (snd (snd raced)) ! 1) \<and>
   blockchain.height (snd (snd raced)) = 2 \<and>
   \<not> ledger_inv (snd (snd raced))"
  by (simp add: raced_def submitStar_twice_def submitStar_read_def submitStar_callback_def
      elapsed_10 elapsed_B fake_verify_true fake_verify_B js_less_def)
     (simp add: ledger0_eq addBlock_then_def getChainHeight_def Block_def Let_def
        ledger_inv_def heights_ok_def string_defs fake_defs)

text \<open>
  C3, amended. After genesis initialisation, and after every successful append
  of a new block whose callback runs on the ledger whose height its call has
  read, no other append having completed in between, the ledger satisfies the
  invariant when it did before: the height of each block is its index, each
  block after the first carries the hash of its predecessor, the genesis block
  has height 0 and no previous hash, and the cached height is the length of the
  chain minus one.
\<close>

theorem chain_invariant_after_append:
  assumes "bc' = Blockchain_new env now \<or>
           (ledger_inv bc \<and> chainHeight = blockchain.height bc \<and>
            addBlock_then env now' chainHeight bc (Block env d) = (Inr b', bc'))"
  shows "(\<forall>i < length (chain bc'). block.height (chain bc' ! i) = int i) \<and>
         (\<forall>i. 0 < i \<and> i < length (chain bc') \<longrightarrow>
              previousBlockHash (chain bc' ! i) = hash (chain bc' ! (i - 1))) \<and>
         chain bc' \<noteq> [] \<and>
         block.height (chain bc' ! 0) = 0 \<and> previousBlockHash (chain bc' ! 0) = None \<and>
         blockchain.height bc' = int (length (chain bc')) - 1 \<and>
         ledger_inv bc'"
proof -
  have "ledger_inv bc' \<and> chain bc' \<noteq> []"
    using assms
  proof
    assume "bc' = Blockchain_new env now"
    with genesis_added [of env now] Blockchain_new_inv [of env now] show ?thesis
      by auto
  next
    assume "ledger_inv bc \<and> chainHeight = blockchain.height bc \<and>
            addBlock_then env now' chainHeight bc (Block env d) = (Inr b', bc')"
    then have inv: "ledger_inv bc"
      and a: "addBlock env now' bc (Block env d) = (Inr b', bc')"
      by (auto simp: addBlock_def getChainHeight_def)
    have "previousBlockHash (Block env d) = None"
      by (simp add: Block_def)
    with addBlock_preserves_inv [OF inv a] have "ledger_inv bc'"
      by simp
    moreover from addBlock_Inr(1) [OF a] have "chain bc' \<noteq> []"
      by simp
    ultimately show ?thesis by simp
  qed
  then show ?thesis
    using ledger_inv_explicit [of bc'] by blast
qed

theorem chain_invariant_after_append_witness:
  "ledger_inv ledger0 \<and> blockchain.height ledger0 = 0 \<and>
   addBlock_then fake_env 1700000010001 0 ledger0
     (Block fake_env
        (StarData (js ''A'') (js ''A:1700000000:starRegistry'') (js ''by A'') (js ''star1'')))
     = (Inr (chain ledger1 ! 1), ledger1) \<and>
   blockchain.height ledger1 = 1 \<and>
   block.height (chain ledger1 ! 1) = 1 \<and>
   previousBlockHash (chain ledger1 ! 1) = hash (chain ledger1 ! 0) \<and>
   ledger_inv ledger1"
proof -
  let ?d = "StarData (js ''A'') (js ''A:1700000000:starRegistry'') (js ''by A'') (js ''star1'')"
  have h: "(0::int) = blockchain.height ledger0"
    by (simp add: ledger0_eq)
  have add: "addBlock_then fake_env 1700000010001 0 ledger0 (Block fake_env ?d)
      = (Inr (chain ledger1 ! 1), ledger1)"
    by (simp add: ledger1_eq ledger0_eq addBlock_then_def Block_def Let_def
        string_defs fake_defs)
  from ledger0_inv h add have hyp: "ledger1 = Blockchain_new fake_env 0 \<or>
      (ledger_inv ledger0 \<and> 0 = blockchain.height ledger0 \<and>
       addBlock_then fake_env 1700000010001 0 ledger0 (Block fake_env ?d)
         = (Inr (chain ledger1 ! 1), ledger1))"
    by blast
  have len: "length (chain ledger1) = 2"
    by (simp add: ledger1_eq)
  from chain_invariant_after_append [OF hyp] len ledger0_inv h add show ?thesis
    by auto
qed

text \<open>
  C9. Every block of a ledger that the constructor and submissions have built
  stores, as its hash, the digest of the serialisation of the block with the
  hash field empty, as the field is when line 79 computes the digest: digesting
  the content without the stored hash again gives the stored hash.
\<close>

theorem sealed_hash_is_digest_of_content:
  assumes "reachable env bc" and "b \<in> set (chain bc)"
  shows "hash b = Some (SHA256 env (JSON_stringify env (b\<lparr>hash := None\<rparr>)))"
  using reachable_sealed [OF assms(1)] assms(2)
  by (simp add: selfValidate_def content_def)

theorem sealed_hash_is_digest_of_content_witness:
  "reachable fake_env ledger1 \<and> chain ledger1 ! 1 \<in> set (chain ledger1) \<and>
   hash (chain ledger1 ! 1) =
     Some (SHA256 fake_env (JSON_stringify fake_env ((chain ledger1 ! 1)\<lparr>hash := None\<rparr>)))"
proof -
  have r: "reachable fake_env ledger1"
    unfolding ledger1_def ledger0_def
    by (rule reachable.submitted) (rule reachable.constructed)
  have m: "chain ledger1 ! 1 \<in> set (chain ledger1)"
    by (simp add: ledger1_eq)
  from sealed_hash_is_digest_of_content [OF r m] r m show ?thesis
    by blast
qed

text \<open>
  C10. The three read operations return the ledger as they received it: the
  chain, the cached height and every stored block are unchanged, for every
  argument and every ledger.
\<close>

theorem reads_leave_ledger_unchanged:
  "snd (getChainHeight bc) = bc \<and>
   snd (getBlockByHash h bc) = bc \<and>
   snd (getBlockByHeight n bc) = bc"
  by (simp add: getChainHeight_def getBlockByHash_def getBlockByHeight_def split: option.splits)

text \<open>
  C5. With a signature that the verifier accepts, on a ledger whose cached
  height is the length of its chain minus one: when the current time minus the
  message time is 299 the submission succeeds, the sealed block holding the
  submitted payload is appended and returned; when it is 300 the submission is
  rejected as expired and the ledger is unchanged.
\<close>

theorem submitStar_freshness_boundary:
  assumes "verify env message address signature = Inr True"
    and "blockchain.height bc = int (length (chain bc)) - 1"
  shows "(js_minus (currentTime now) (messageTime message) = Some 299 \<longrightarrow>
           (\<exists>b. submitStar env now now' bc address message signature star =
                   (Inr b, bc\<lparr>chain := chain bc @ [b], height := blockchain.height bc + 1\<rparr>) \<and>
                 body b = encode env (StarData address message signature star))) \<and>
         (js_minus (currentTime now) (messageTime message) = Some 300 \<longrightarrow>
           submitStar env now now' bc address message signature star =
             (Inl ExpiredChallenge, bc))"
proof (intro conjI impI)
  let ?blk = "Block env (StarData address message signature star)"
  assume "js_minus (currentTime now) (messageTime message) = Some 299"
  with assms(1) have s: "submitStar env now now' bc address message signature star =
      addBlock env now' bc ?blk"
    by (simp add: submitStar_cases)
  from addBlock_succeeds [OF assms(2), of env now' ?blk]
  obtain b where a: "addBlock env now' bc ?blk =
      (Inr b, bc\<lparr>chain := chain bc @ [b], height := blockchain.height bc + 1\<rparr>)"
    by blast
  from addBlock_Inr(4) [OF a] have "body b = encode env (StarData address message signature star)"
    by (simp add: Block_def)
  with s a show "\<exists>b. submitStar env now now' bc address message signature star =
                   (Inr b, bc\<lparr>chain := chain bc @ [b], height := blockchain.height bc + 1\<rparr>) \<and>
                 body b = encode env (StarData address message signature star)"
    by auto
next
  assume "js_minus (currentTime now) (messageTime message) = Some 300"
  with assms(1) show "submitStar env now now' bc address message signature star =
             (Inl ExpiredChallenge, bc)"
    by (simp add: submitStar_cases)
qed

theorem submitStar_freshness_boundary_witness:
  "\<not> isl (fst (submitStar fake_env 1700000299999 1700000300000 ledger0
                  (js ''A'') (js ''A:1700000000:starRegistry'') (js ''by A'') (js ''star1''))) \<and>
   blockchain.height (snd (submitStar fake_env 1700000299999 1700000300000 ledger0
                  (js ''A'') (js ''A:1700000000:starRegistry'') (js ''by A'') (js ''star1''))) = 1 \<and>
   submitStar fake_env 1700000300000 1700000300001 ledger0
                  (js ''A'') (js ''A:1700000000:starRegistry'') (js ''by A'') (js ''star1'')
     = (Inl ExpiredChallenge, ledger0)"
proof -
  from submitStar_freshness_boundary
         [OF fake_verify_true ledger0_height, of 1700000299999 1700000300000 "(js ''star1'')"]
       elapsed_299
  have fresh: "\<exists>b. submitStar fake_env 1700000299999 1700000300000 ledger0
                  (js ''A'') (js ''A:1700000000:starRegistry'') (js ''by A'') (js ''star1'') =
      (Inr b, ledger0\<lparr>chain := chain ledger0 @ [b], height := blockchain.height ledger0 + 1\<rparr>)"
    by blast
  from submitStar_freshness_boundary
         [OF fake_verify_true ledger0_height, of 1700000300000 1700000300001 "(js ''star1'')"]
       elapsed_300
  have stale: "submitStar fake_env 1700000300000 1700000300001 ledger0
                  (js ''A'') (js ''A:1700000000:starRegistry'') (js ''by A'') (js ''star1'')
     = (Inl ExpiredChallenge, ledger0)"
    by blast
  from fresh stale show ?thesis
    by (auto simp: ledger0_eq)
qed

text \<open>
  C6. When the current time minus the message time is 300 or more and the
  verifier returns, be it with false for a signature that does not match, the
  submission is rejected as expired, not as an invalid signature, and the ledger
  is unchanged: line 136 tests the age before line 138 reads the result of the
  verification.
\<close>

theorem expired_before_signature:
  assumes "verify env message address signature = Inr verified"
    and "js_minus (currentTime now) (messageTime message) = Some e"
    and "e \<ge> 300"
  shows "submitStar env now now' bc address message signature star = (Inl ExpiredChallenge, bc)"
  using assms by (simp add: submitStar_cases)

theorem expired_before_signature_witness:
  "verify fake_env (js ''A:1700000000:starRegistry'') (js ''A'') (js ''by B'') = Inr False \<and>
   js_minus (currentTime 1700000300000) (messageTime (js ''A:1700000000:starRegistry'')) = Some 300 \<and>
   submitStar fake_env 1700000300000 1700000300001 ledger0
                  (js ''A'') (js ''A:1700000000:starRegistry'') (js ''by B'') (js ''star1'')
     = (Inl ExpiredChallenge, ledger0)"
proof -
  have "(300::int) \<ge> 300" by simp
  from expired_before_signature [OF fake_verify_false elapsed_300 this]
  show ?thesis
    using fake_verify_false elapsed_300 by simp
qed

text \<open>
  C7. When the current time minus the message time is below 300 and the
  verifier returns false, the submission is rejected as an invalid signature and
  the ledger is the one before the call: no block is appended and the height is
  the same.
\<close>

theorem invalid_signature_leaves_ledger:
  assumes "verify env message address signature = Inr False"
    and "js_minus (currentTime now) (messageTime message) = Some e"
    and "e < 300"
  shows "fst (submitStar env now now' bc address message signature star) = Inl InvalidSignature \<and>
         snd (submitStar env now now' bc address message signature star) = bc \<and>
         chain (snd (submitStar env now now' bc address message signature star)) = chain bc \<and>
         blockchain.height (snd (submitStar env now now' bc address message signature star))
           = blockchain.height bc"
  using assms by (simp add: submitStar_cases)

theorem invalid_signature_leaves_ledger_witness:
  "verify fake_env (js ''A:1700000000:starRegistry'') (js ''A'') (js ''by B'') = Inr False \<and>
   js_minus (currentTime 1700000010000) (messageTime (js ''A:1700000000:starRegistry'')) = Some 10 \<and>
   fst (submitStar fake_env 1700000010000 1700000010001 ledger0
          (js ''A'') (js ''A:1700000000:starRegistry'') (js ''by B'') (js ''star1'')) = Inl InvalidSignature \<and>
   blockchain.height (snd (submitStar fake_env 1700000010000 1700000010001 ledger0
          (js ''A'') (js ''A:1700000000:starRegistry'') (js ''by B'') (js ''star1''))) = 0"
proof -
  have "(10::int) < 300" by simp
  from invalid_signature_leaves_ledger [OF fake_verify_false elapsed_10 this]
  show ?thesis
    using fake_verify_false elapsed_10 by (simp add: ledger0_eq)
qed

text \<open>
  C8, as stated, fails: a message with no second segment, and one whose second
  segment is a word, are both rejected as expired challenges, not as malformed
  messages.
\<close>

theorem malformed_message_counterexample:
  "js_index (split (cu CHR '':'') (js ''hello'')) 1 = None \<and>
   fst (submitStar fake_env 1700000010000 1700000010001 ledger0
          (js ''A'') (js ''hello'') (js ''by A'') (js ''star1'')) = Inl ExpiredChallenge \<and>
   fst (submitStar fake_env 1700000010000 1700000010001 ledger0
          (js ''A'') (js ''hello'') (js ''by A'') (js ''star1'')) \<noteq> Inl MalformedMessage \<and>
   js_index (split (cu CHR '':'') (js ''A:soon:starRegistry'')) 1 = Some (js ''soon'') \<and>
   fst (submitStar fake_env 1700000010000 1700000010001 ledger0
          (js ''A'') (js ''A:soon:starRegistry'') (js ''by A'') (js ''star1'')) = Inl ExpiredChallenge"
  by (simp add: submitStar_cases js_minus_def messageTime_def currentTime_eq string_defs fake_defs)

text \<open>
  C8, amended. For every message that has no colon, or whose second segment
  \<^verbatim>\<open>parseInt\<close> reads as \<^verbatim>\<open>NaN\<close>, the submission is rejected and the ledger is
  unchanged: with the message of the verifier's error when the verifier throws,
  and as an expired challenge otherwise.
\<close>

theorem unparsable_message_rejected:
  assumes "(cu CHR '':'') \<notin> set message \<or> messageTime message = None"
  shows "submitStar env now now' bc address message signature star =
           (case verify env message address signature of
              Inl msg \<Rightarrow> Inl (VerificationError msg)
            | Inr verified \<Rightarrow> Inl ExpiredChallenge,
            bc)"
proof -
  from assms messageTime_absent have "messageTime message = None" by blast
  then show ?thesis
    by (simp add: submitStar_cases js_minus_def split: sum.splits option.splits)
qed

theorem unparsable_message_rejected_witness:
  "(cu CHR '':'') \<notin> set (js ''hello'') \<and>
   submitStar fake_env 1700000010000 1700000010001 ledger0 (js ''A'') (js ''hello'') (js ''by A'') (js ''star1'')
     = (Inl ExpiredChallenge, ledger0) \<and>
   submitStar fake_env 1700000010000 1700000010001 ledger0 (js ''A'') (js ''hello'') [] (js ''star1'')
     = (Inl (VerificationError (js ''Invalid signature length'')), ledger0)"
proof -
  have h: "(cu CHR '':'') \<notin> set (js ''hello'') \<or> messageTime (js ''hello'') = None"
    by (simp add: js_def cu_def)
  from unparsable_message_rejected
         [OF h, of fake_env 1700000010000 1700000010001 ledger0 "(js ''A'')" "(js ''by A'')" "(js ''star1'')"]
       unparsable_message_rejected
         [OF h, of fake_env 1700000010000 1700000010001 ledger0 "(js ''A'')" "[]" "(js ''star1'')"]
  show ?thesis
    by (simp add: fake_defs)
qed

text \<open>
  C1, evaluated on a ledger whose star block had its payload overwritten after
  sealing. The validation promise of the block is rejected, yet the promise of
  \<open>validateChain\<close> is fulfilled by the executor, while the reactions of both
  blocks are still waiting, and stays fulfilled: the caller is told of no error.
  The record for the block reaches the array only afterwards.
\<close>

theorem validateChain_misses_tampered_block:
  "\<not> validate fake_env (chain tampered ! 1) \<and>
   vc_promise (validateChain_executor tampered) = Fulfilled () \<and>
   vc_reactions (validateChain_executor tampered) = chain tampered \<and>
   errorLog (validateChain_executor tampered) = [] \<and>
   vc_promise (validateChain fake_env tampered) = Fulfilled () \<and>
   errorLog (validateChain fake_env tampered) = [(chain tampered ! 1, (js ''Block validation fails''))]"
  by (simp add: validateChain_def validateChain_executor_eq vc_run_reactions_def tampered_eq
      vc_reaction_def content_def fake_defs string_defs)

text \<open>
  C2, evaluated on a ledger that holds one star of wallet \<open>A\<close>. The executor
  resolves the promise with array 1 while that array is empty and the reactions
  of both blocks are still waiting: no payload has been looked at. The entry of
  \<open>A\<close> is pushed into the same array only when the reactions run.
\<close>

theorem getStars_resolves_before_decoding:
  "getBData fake_env (chain ledger1 ! 1)
     = Some (StarData (js ''A'') (js ''A:1700000000:starRegistry'') (js ''by A'') (js ''star1'')) \<and>
   gs_promise (getStars_executor ledger1) = Fulfilled 1 \<and>
   arrays (getStars_executor ledger1) 1 = [] \<and>
   gs_reactions (getStars_executor ledger1) = chain ledger1 \<and>
   resolved_list (getStars_executor ledger1) = Some [] \<and>
   resolved_list (getStarsByWalletAddress fake_env (js ''A'') ledger1) = Some [Entry (js ''A'') (js ''star1'')]"
  by (simp add: getStarsByWalletAddress_def getStars_executor_eq gs_run_reactions_def
      gs_reaction_def resolved_list_def ledger1_eq fake_defs string_defs)

text \<open>
  C4, as stated, fails. In the ledger \<open>unlinked\<close> the validation promise of
  every block is fulfilled, the second block does not carry the hash of the
  first, and the third carries the hash of the second. After the reactions the expected hash is
  still the hash of the first block, and the array holds a record for the second
  block and one for the third, which is correctly linked.
\<close>

theorem broken_link_cascades_counterexample:
  "validate fake_env (chain unlinked ! 1) \<and>
   validate fake_env (chain unlinked ! 2) \<and>
   previousBlockHash (chain unlinked ! 1) \<noteq> hash (chain unlinked ! 0) \<and>
   previousBlockHash (chain unlinked ! 2) = hash (chain unlinked ! 1) \<and>
   expected (validateChain fake_env unlinked) = hash (chain unlinked ! 0) \<and>
   expected (validateChain fake_env unlinked) \<noteq> hash (chain unlinked ! 1) \<and>
   errorLog (validateChain fake_env unlinked) =
     [(chain unlinked ! 1, (js ''previous hash does not match'')),
      (chain unlinked ! 2, (js ''previous hash does not match''))]"
  by (simp add: validateChain_def validateChain_executor_eq vc_run_reactions_def unlinked_eq
      vc_reaction_def content_def fake_defs string_defs)

text \<open>
  C4, amended. In the reaction of a block whose validation promise is fulfilled,
  the expected previous hash becomes the hash of the block only when the block's
  previous hash equals the expected one, and then nothing is logged; on a
  mismatch one record is logged for the block and the expected hash stays as it
  was. Hence, while the blocks that follow carry a previous hash other than the
  expected one, each of them is logged and the expected hash does not move.
\<close>

theorem expected_hash_advances_only_on_match:
  "(validate env b \<and> expected st = previousBlockHash b \<longrightarrow>
      expected (vc_reaction env st b) = hash b \<and>
      errorLog (vc_reaction env st b) = errorLog st) \<and>
   (validate env b \<and> expected st \<noteq> previousBlockHash b \<longrightarrow>
      expected (vc_reaction env st b) = expected st \<and>
      errorLog (vc_reaction env st b) = errorLog st @ [(b, (js ''previous hash does not match''))]) \<and>
   ((\<forall>b \<in> set bs. validate env b \<and> previousBlockHash b \<noteq> expected st) \<longrightarrow>
      expected (foldl (vc_reaction env) st bs) = expected st \<and>
      errorLog (foldl (vc_reaction env) st bs) =
        errorLog st @ map (\<lambda>b. (b, (js ''previous hash does not match''))) bs)"
  using stale_expected [of bs env st] by (simp add: vc_reaction_def)

theorem expected_hash_advances_only_on_match_witness:
  "validate fake_env (chain unlinked ! 0) \<and>
   previousBlockHash (chain unlinked ! 0) = None \<and>
   expected (vc_reaction fake_env
     \<lparr>errorLog = [], expected = None, vc_reactions = [], vc_promise = Fulfilled ()\<rparr>
     (chain unlinked ! 0)) = hash (chain unlinked ! 0) \<and>
   validate fake_env (chain unlinked ! 1) \<and>
   validate fake_env (chain unlinked ! 2) \<and>
   expected (foldl (vc_reaction fake_env)
     \<lparr>errorLog = [], expected = hash (chain unlinked ! 0), vc_reactions = [],
      vc_promise = Fulfilled ()\<rparr>
     [chain unlinked ! 1, chain unlinked ! 2]) = hash (chain unlinked ! 0) \<and>
   errorLog (foldl (vc_reaction fake_env)
     \<lparr>errorLog = [], expected = hash (chain unlinked ! 0), vc_reactions = [],
      vc_promise = Fulfilled ()\<rparr>
     [chain unlinked ! 1, chain unlinked ! 2]) =
     [(chain unlinked ! 1, (js ''previous hash does not match'')),
      (chain unlinked ! 2, (js ''previous hash does not match''))]"
proof -
  let ?s0 = "\<lparr>errorLog = [], expected = None, vc_reactions = [], vc_promise = Fulfilled ()\<rparr>"
  let ?s1 = "\<lparr>errorLog = [], expected = hash (chain unlinked ! 0), vc_reactions = [],
              vc_promise = Fulfilled ()\<rparr>"
  have v: "validate fake_env (chain unlinked ! 0)" "validate fake_env (chain unlinked ! 1)"
    "validate fake_env (chain unlinked ! 2)"
    by (simp_all add: unlinked_eq content_def fake_defs string_defs)
  have p: "previousBlockHash (chain unlinked ! 0) = None"
    "previousBlockHash (chain unlinked ! 1) \<noteq> hash (chain unlinked ! 0)"
    "previousBlockHash (chain unlinked ! 2) \<noteq> hash (chain unlinked ! 0)"
    by (simp_all add: unlinked_eq js_def cu_def)
  from expected_hash_advances_only_on_match [of fake_env "chain unlinked ! 0" ?s0 "[]"] v(1) p(1)
  have first: "expected (vc_reaction fake_env ?s0 (chain unlinked ! 0)) = hash (chain unlinked ! 0)"
    by simp
  from expected_hash_advances_only_on_match
         [of fake_env "chain unlinked ! 1" ?s1 "[chain unlinked ! 1, chain unlinked ! 2]"]
       v(2,3) p(2,3)
  have rest: "expected (foldl (vc_reaction fake_env) ?s1 [chain unlinked ! 1, chain unlinked ! 2])
      = hash (chain unlinked ! 0)"
    "errorLog (foldl (vc_reaction fake_env) ?s1 [chain unlinked ! 1, chain unlinked ! 2]) =
       [(chain unlinked ! 1, (js ''previous hash does not match'')),
        (chain unlinked ! 2, (js ''previous hash does not match''))]"
    by simp_all
  from v p(1) first rest show ?thesis
    by blast
qed

end
